theory Spec2Isabelle
  imports Main "HOL-Library.Word"
begin

section \<open>The environment of the two simulators\<close>

text \<open>
  The repository holds two scripts: \<^verbatim>\<open>scripts/udpServerSim.py\<close> (a UDP responder) and
  \<^verbatim>\<open>gatekeeper-pwa/scripts/api-simulator.py\<close> (an HTTP responder built on
  \<^verbatim>\<open>http.server.BaseHTTPRequestHandler\<close>). Both only read the clock, sleep, print and talk
  to a socket, so the model is explicit state passing over a \<open>world\<close>: a clock in
  milliseconds, the delays the operating system adds to each call, and the trace of the
  calls made so far.

  Time is a natural number of milliseconds: \<^verbatim>\<open>time.sleep(0.5)\<close> is \<open>sleep 500\<close>, and
  \<^verbatim>\<open>time.sleep(0.1)\<close> is \<open>sleep 100\<close>. A call never returns early: \<open>elapse d\<close> advances the
  clock by the requested duration \<open>d\<close> plus the next value of \<open>jitter\<close>, the non-negative
  extra time the call took (\<^verbatim>\<open>time.sleep\<close> suspends for at least the time asked for).

  Formatted text is kept by its format and its arguments, not rendered: each \<open>log_line\<close>
  constructor stands for one \<^verbatim>\<open>print\<close> of the source, and carries the clock reading
  that \<^verbatim>\<open>time.strftime('%H:%M:%S')\<close> renders, the address and the hex string.

  An exception is a value: \<^verbatim>\<open>sock.sendto\<close> raises \<^verbatim>\<open>OSError\<close> when the socket layer refuses
  the call, and \<^verbatim>\<open>urlparse\<close> raises \<^verbatim>\<open>ValueError\<close> on some request targets. Neither script
  catches either. \<^verbatim>\<open>bind\<close> and \<^verbatim>\<open>recvfrom\<close> are taken to return.
\<close>

type_synonym millis = nat
type_synonym byte = "8 word"
type_synonym address = "string \<times> nat"

datatype log_line =
    Listening nat
      \<comment> \<open>\<^verbatim>\<open>[UDP-SIM] ... Listening on {PORT} ...\<close>\<close>
  | Trigger_from millis address string
      \<comment> \<open>\<^verbatim>\<open>[{strftime}] ... Trigger from {addr}: {data.hex()}\<close>\<close>
  | Sent_activated millis address
      \<comment> \<open>\<^verbatim>\<open>[{strftime}] ... Sent 0x01 (activated) ... {addr}\<close>\<close>
  | Sent_released millis address
      \<comment> \<open>\<^verbatim>\<open>[{strftime}] ... Sent 0x00 (released) ... {addr}\<close>\<close>
  | Plain string
      \<comment> \<open>a line without arguments, such as \<^verbatim>\<open>"-" * 45\<close>\<close>
  | Trigger_received millis string
      \<comment> \<open>\<^verbatim>\<open>[{strftime}] Gate trigger received from {self.client_address[0]}\<close>\<close>
  | Response_sent millis
      \<comment> \<open>\<^verbatim>\<open>[{strftime}] Gate trigger response sent: 200 OK\<close>\<close>

datatype event =
    RecvFrom "byte list" address
  | SendTo "byte list" address
  | Sleep millis
  | Print log_line

datatype exn = ValueError | OSError

record world =
  clock :: millis
  jitter :: "millis list"
  trace :: "(millis \<times> event) list"
  bracketed_hosts :: "string set"
    \<comment> \<open>the hosts that \<^verbatim>\<open>urllib.parse._check_bracketed_host\<close> accepts between square
        brackets (the \<^verbatim>\<open>ipaddress\<close> module decides); only the HTTP responder consults it\<close>

definition elapse :: "millis \<Rightarrow> world \<Rightarrow> world" where
  "elapse d w =
     w\<lparr>clock := clock w + d + (case jitter w of [] \<Rightarrow> 0 | j # _ \<Rightarrow> j),
       jitter := tl (jitter w)\<rparr>"

definition record_event :: "event \<Rightarrow> world \<Rightarrow> world" where
  "record_event e w = w\<lparr>trace := trace w @ [(clock w, e)]\<rparr>"

definition strftime :: "world \<Rightarrow> millis" where
  \<comment> \<open>\<^verbatim>\<open>time.strftime('%H:%M:%S')\<close>: the clock reading that is rendered\<close>
  "strftime w = clock w"

definition print :: "log_line \<Rightarrow> world \<Rightarrow> world" where
  "print line w = elapse 0 (record_event (Print line) w)"

definition sleep :: "millis \<Rightarrow> world \<Rightarrow> world" where
  "sleep d w = elapse d (record_event (Sleep d) w)"

text \<open>The events a run has added to the trace, and what is read from them.\<close>

definition new_events :: "world \<Rightarrow> world \<Rightarrow> (millis \<times> event) list" where
  "new_events w w' = drop (length (trace w)) (trace w')"

fun is_send :: "millis \<times> event \<Rightarrow> bool" where
  "is_send (t, SendTo data addr) = True"
| "is_send (t, e) = False"

fun is_io :: "millis \<times> event \<Rightarrow> bool" where
  "is_io (t, SendTo data addr) = True"
| "is_io (t, RecvFrom data addr) = True"
| "is_io (t, e) = False"

fun is_sleep :: "millis \<times> event \<Rightarrow> bool" where
  "is_sleep (t, Sleep d) = True"
| "is_sleep (t, e) = False"

definition sends :: "(millis \<times> event) list \<Rightarrow> (millis \<times> event) list" where
  "sends evs = filter is_send evs"

definition io :: "(millis \<times> event) list \<Rightarrow> (millis \<times> event) list" where
  "io evs = filter is_io evs"

definition sends_and_sleeps :: "(millis \<times> event) list \<Rightarrow> (millis \<times> event) list" where
  "sends_and_sleeps evs = filter (\<lambda>x. is_send x \<or> is_sleep x) evs"

fun erase_time :: "event \<Rightarrow> event" where
  "erase_time (Print (Trigger_from t addr h)) = Print (Trigger_from 0 addr h)"
| "erase_time (Print (Sent_activated t addr)) = Print (Sent_activated 0 addr)"
| "erase_time (Print (Sent_released t addr)) = Print (Sent_released 0 addr)"
| "erase_time (Print (Trigger_received t ip)) = Print (Trigger_received 0 ip)"
| "erase_time (Print (Response_sent t)) = Print (Response_sent 0)"
| "erase_time e = e"

definition untimed :: "(millis \<times> event) list \<Rightarrow> event list" where
  \<comment> \<open>a trace without its time stamps and without the clock readings in its log lines\<close>
  "untimed evs = map (\<lambda>(t, e). erase_time e) evs"

fun erase_payload :: "event \<Rightarrow> event" where
  "erase_payload (RecvFrom data addr) = RecvFrom [] addr"
| "erase_payload (Print (Trigger_from t addr h)) = Print (Trigger_from t addr [])"
| "erase_payload e = e"

definition without_payload :: "(millis \<times> event) list \<Rightarrow> (millis \<times> event) list" where
  \<comment> \<open>a trace without the bytes received and without the hex string logged for them\<close>
  "without_payload evs = map (\<lambda>(t, e). (t, erase_payload e)) evs"

section \<open>The UDP responder (\<^verbatim>\<open>scripts/udpServerSim.py\<close>)\<close>

definition HOST :: string where
  "HOST = []"

definition PORT :: nat where
  "PORT = 8050"

record datagram =
  arrival :: millis
  payload :: "byte list"
  sender :: address

definition hexdigit :: "nat \<Rightarrow> char" where
  "hexdigit n = ''0123456789abcdef'' ! (n mod 16)"

definition hex :: "byte list \<Rightarrow> string" where
  \<comment> \<open>\<^verbatim>\<open>bytes.hex()\<close>: two lower-case digits for each byte\<close>
  "hex data = concat (map (\<lambda>b. [hexdigit (unat b div 16), hexdigit (unat b mod 16)]) data)"

definition recvfrom :: "nat \<Rightarrow> datagram \<Rightarrow> world \<Rightarrow> (byte list \<times> address) \<times> world" where
  \<comment> \<open>\<^verbatim>\<open>sock.recvfrom(bufsize)\<close> blocks until the next datagram has arrived, and returns
      at most \<open>bufsize\<close> bytes of it with the address of its sender\<close>
  "recvfrom bufsize dg w =
     (let data = take bufsize (payload dg);
          w1 = w\<lparr>clock := max (clock w) (arrival dg)\<rparr>
      in ((data, sender dg), elapse 0 (record_event (RecvFrom data (sender dg)) w1)))"

definition sendto_returns :: "byte list \<Rightarrow> address \<Rightarrow> world \<Rightarrow> world" where
  \<comment> \<open>what a call of \<^verbatim>\<open>sock.sendto\<close> that returns does\<close>
  "sendto_returns data addr w = elapse 0 (record_event (SendTo data addr) w)"

text \<open>
  \<^verbatim>\<open>sock.sendto\<close> raises \<^verbatim>\<open>OSError\<close> when the socket layer refuses the call. It refuses
  every destination with port 0 (a datagram with source port 0 can be received, and its
  sender is then such a destination). What else it refuses is up to the environment:
  \<open>refused\<close> holds the ordinal numbers, counted from 0 over the run of the script, of the
  \<open>sendto\<close> calls that fail. The script has no \<^verbatim>\<open>try\<close>: the exception ends it, and the world
  it ends in is kept with the exception.
\<close>

definition sendto :: "nat set \<Rightarrow> byte list \<Rightarrow> address \<Rightarrow> world \<Rightarrow> exn \<times> world + world" where
  "sendto refused data addr w =
     (if snd addr = 0 \<or> length (sends (trace w)) \<in> refused then Inl (OSError, w)
      else Inr (sendto_returns data addr w))"

definition run_loop_body :: "nat set \<Rightarrow> datagram \<Rightarrow> world \<Rightarrow> exn \<times> world + world" where
  \<comment> \<open>one pass through the body of \<^verbatim>\<open>while True\<close>, lines 17 to 28\<close>
  "run_loop_body refused dg w =
     (let ((data, addr), w1) = recvfrom 1024 dg w;
          w2 = print (Trigger_from (strftime w1) addr (hex data)) w1
      in case sendto refused [0x01] addr w2 of
           Inl raised \<Rightarrow> Inl raised
         | Inr w3 \<Rightarrow>
             (let w4 = print (Sent_activated (strftime w3) addr) w3;
                  w5 = sleep 500 w4
              in case sendto refused [0x00] addr w5 of
                   Inl raised \<Rightarrow> Inl raised
                 | Inr w6 \<Rightarrow>
                     (let w7 = print (Sent_released (strftime w6) addr) w6
                      in Inr (print (Plain (replicate 45 CHR ''-'')) w7))))"

text \<open>
  The loop never ends by itself. Its run on the datagrams that reach the socket, in
  their order of arrival, is the recursion below; when they are used up the script is
  blocked in \<^verbatim>\<open>recvfrom\<close>, and the world returned is the one it waits in. An exception
  ends the run at once.
\<close>

fun run_receive_loop :: "nat set \<Rightarrow> datagram list \<Rightarrow> world \<Rightarrow> exn \<times> world + world" where
  "run_receive_loop refused [] w = Inr w"
| "run_receive_loop refused (dg # dgs) w =
     (case run_loop_body refused dg w of
        Inl raised \<Rightarrow> Inl raised
      | Inr w1 \<Rightarrow> run_receive_loop refused dgs w1)"

definition udpServerSim :: "nat set \<Rightarrow> datagram list \<Rightarrow> world \<Rightarrow> exn \<times> world + world" where
  "udpServerSim refused dgs w = run_receive_loop refused dgs (print (Listening PORT) w)"

text \<open>
  The pass and the run in which every \<open>sendto\<close> call returns: the same lines, with
  \<open>sendto_returns\<close> for \<open>sendto\<close>. They are what \<open>run_loop_body\<close> and \<open>run_receive_loop\<close>
  compute when nothing is refused (lemmas \<open>run_loop_body_returns\<close> and
  \<open>run_receive_loop_returns\<close> below), and an interrupted run leaves a prefix of their trace.
\<close>

definition loop_body :: "datagram \<Rightarrow> world \<Rightarrow> world" where
  "loop_body dg w =
     (let ((data, addr), w1) = recvfrom 1024 dg w;
          w2 = print (Trigger_from (strftime w1) addr (hex data)) w1;
          w3 = sendto_returns [0x01] addr w2;
          w4 = print (Sent_activated (strftime w3) addr) w3;
          w5 = sleep 500 w4;
          w6 = sendto_returns [0x00] addr w5;
          w7 = print (Sent_released (strftime w6) addr) w6
      in print (Plain (replicate 45 CHR ''-'')) w7)"

fun receive_loop :: "datagram list \<Rightarrow> world \<Rightarrow> world" where
  "receive_loop [] w = w"
| "receive_loop (dg # dgs) w = receive_loop dgs (loop_body dg w)"

section \<open>The HTTP responder (\<^verbatim>\<open>gatekeeper-pwa/scripts/api-simulator.py\<close>)\<close>

subsection \<open>The path component of \<^verbatim>\<open>urllib.parse.urlparse\<close>\<close>

text \<open>
  \<^verbatim>\<open>do_POST\<close> compares \<^verbatim>\<open>urlparse(self.path).path\<close> with \<^verbatim>\<open>'/trigger'\<close>. The functions below
  follow \<^verbatim>\<open>urlsplit\<close>, \<^verbatim>\<open>_splitnetloc\<close>, \<^verbatim>\<open>_splitparams\<close> and \<^verbatim>\<open>urlparse\<close> of CPython 3.11 as
  far as the scheme and the path are concerned. A \<open>string\<close> is the request target as
  \<^verbatim>\<open>parse_request\<close> decodes it (ISO-8859-1, one character for each byte); on such text
  \<^verbatim>\<open>_checknetloc\<close> never raises, since no character below U+0100 normalises under NFKC to
  one of \<^verbatim>\<open>/?#@:\<close>. The validation of a bracketed host by the \<^verbatim>\<open>ipaddress\<close> module is the
  field \<open>bracketed_hosts\<close> of the world.
\<close>

definition lstrip_c0 :: "string \<Rightarrow> string" where
  \<comment> \<open>\<^verbatim>\<open>url.lstrip(_WHATWG_C0_CONTROL_OR_SPACE)\<close>: the characters 0x00 to 0x20\<close>
  "lstrip_c0 url = dropWhile (\<lambda>c. (of_char c :: nat) \<le> 32) url"

definition remove_unsafe :: "string \<Rightarrow> string" where
  \<comment> \<open>\<^verbatim>\<open>url.replace(b, "")\<close> for each of tab, carriage return and line feed\<close>
  "remove_unsafe url = filter (\<lambda>c. c \<noteq> CHR 0x09 \<and> c \<noteq> CHR 0x0D \<and> c \<noteq> CHR 0x0A) url"

fun str_find :: "char \<Rightarrow> string \<Rightarrow> nat option" where
  \<comment> \<open>\<^verbatim>\<open>s.find(c)\<close>, with \<open>None\<close> for -1\<close>
  "str_find c [] = None"
| "str_find c (x # xs) = (if x = c then Some 0 else map_option Suc (str_find c xs))"

fun str_rfind :: "char \<Rightarrow> string \<Rightarrow> nat option" where
  \<comment> \<open>\<^verbatim>\<open>s.rfind(c)\<close>, with \<open>None\<close> for -1\<close>
  "str_rfind c [] = None"
| "str_rfind c (x # xs) =
     (case str_rfind c xs of
        Some i \<Rightarrow> Some (Suc i)
      | None \<Rightarrow> if x = c then Some 0 else None)"

definition is_ascii_alpha :: "char \<Rightarrow> bool" where
  "is_ascii_alpha c =
     (let n = (of_char c :: nat) in (65 \<le> n \<and> n \<le> 90) \<or> (97 \<le> n \<and> n \<le> 122))"

definition scheme_char :: "char \<Rightarrow> bool" where
  \<comment> \<open>membership in \<^verbatim>\<open>scheme_chars\<close>: letters, digits and \<^verbatim>\<open>+-.\<close>\<close>
  "scheme_char c =
     (let n = (of_char c :: nat)
      in is_ascii_alpha c \<or> (48 \<le> n \<and> n \<le> 57) \<or> c = CHR ''+'' \<or> c = CHR ''-'' \<or> c = CHR ''.'')"

definition lower :: "char \<Rightarrow> char" where
  "lower c =
     (let n = (of_char c :: nat) in if 65 \<le> n \<and> n \<le> 90 then char_of (n + 32) else c)"

definition uses_params :: "string list" where
  "uses_params =
     ['''', ''ftp'', ''hdl'', ''prospero'', ''http'', ''imap'', ''https'', ''shttp'', ''rtsp'',
      ''rtsps'', ''rtspu'', ''sip'', ''sips'', ''mms'', ''sftp'', ''tel'']"

definition split_scheme :: "string \<Rightarrow> string \<times> string" where
  \<comment> \<open>the scheme, lower-cased, and the rest of the url; the scheme is empty when the
      text before the first colon is not a scheme name\<close>
  "split_scheme url =
     (case str_find CHR '':'' url of
        None \<Rightarrow> ('''', url)
      | Some i \<Rightarrow>
          if 0 < i \<and> is_ascii_alpha (hd url) \<and> list_all scheme_char (take i url)
          then (map lower (take i url), drop (Suc i) url)
          else ('''', url))"

definition netloc_delim :: "char \<Rightarrow> bool" where
  "netloc_delim c = (c = CHR ''/'' \<or> c = CHR ''?'' \<or> c = CHR ''#'')"

definition splitnetloc :: "string \<Rightarrow> string \<times> string" where
  \<comment> \<open>\<^verbatim>\<open>_splitnetloc(url, 2)\<close> for a url that begins with two slashes\<close>
  "splitnetloc url =
     (takeWhile (\<lambda>c. \<not> netloc_delim c) (drop 2 url),
      dropWhile (\<lambda>c. \<not> netloc_delim c) (drop 2 url))"

definition bracketed_host :: "string \<Rightarrow> string" where
  \<comment> \<open>\<^verbatim>\<open>netloc.partition('[')[2].partition(']')[0]\<close>\<close>
  "bracketed_host netloc =
     takeWhile (\<lambda>c. c \<noteq> CHR '']'') (drop 1 (dropWhile (\<lambda>c. c \<noteq> CHR ''['') netloc))"

definition before :: "char \<Rightarrow> string \<Rightarrow> string" where
  \<comment> \<open>\<^verbatim>\<open>url.split(c, 1)[0]\<close> when \<open>c\<close> occurs, and the url itself when it does not\<close>
  "before c url = takeWhile (\<lambda>x. x \<noteq> c) url"

definition urlsplit :: "world \<Rightarrow> string \<Rightarrow> exn + string \<times> string" where
  \<comment> \<open>the scheme and the path of \<^verbatim>\<open>urlsplit(url)\<close>\<close>
  "urlsplit w url =
     (let (scheme, url1) = split_scheme (remove_unsafe (lstrip_c0 url))
      in if take 2 url1 = ''//'' then
           (let (netloc, url2) = splitnetloc url1;
                lb = (CHR ''['' \<in> set netloc);
                rb = (CHR '']'' \<in> set netloc)
            in if (lb \<and> \<not> rb) \<or> (rb \<and> \<not> lb) then Inl ValueError
               else if lb \<and> rb \<and> bracketed_host netloc \<notin> bracketed_hosts w then Inl ValueError
               else Inr (scheme, before CHR ''?'' (before CHR ''#'' url2)))
         else Inr (scheme, before CHR ''?'' (before CHR ''#'' url1)))"

definition splitparams :: "string \<Rightarrow> string" where
  \<comment> \<open>the first component of \<^verbatim>\<open>_splitparams(url)\<close>, for a url that contains a semicolon\<close>
  "splitparams url =
     (case str_rfind CHR ''/'' url of
        Some k \<Rightarrow>
          (case str_find CHR '';'' (drop k url) of
             None \<Rightarrow> url
           | Some i \<Rightarrow> take (k + i) url)
      | None \<Rightarrow> before CHR '';'' url)"

definition urlparse :: "world \<Rightarrow> string \<Rightarrow> exn + string" where
  \<comment> \<open>\<^verbatim>\<open>urlparse(url).path\<close>\<close>
  "urlparse w url =
     (case urlsplit w url of
        Inl e \<Rightarrow> Inl e
      | Inr (scheme, url1) \<Rightarrow>
          if scheme \<in> set uses_params \<and> CHR '';'' \<in> set url1
          then Inr (splitparams url1)
          else Inr url1)"

subsection \<open>What \<^verbatim>\<open>BaseHTTPRequestHandler\<close> provides\<close>

text \<open>
  The handler works on the attributes that \<^verbatim>\<open>parse_request\<close> sets from a request line it
  accepts: \<^verbatim>\<open>self.command\<close>, \<^verbatim>\<open>self.path\<close>, \<^verbatim>\<open>self.request_version\<close>; the request body stays
  unread in \<^verbatim>\<open>self.rfile\<close>. \<^verbatim>\<open>send_response_only\<close>, \<^verbatim>\<open>send_header\<close> and \<^verbatim>\<open>end_headers\<close> each
  begin with \<^verbatim>\<open>if self.request_version != 'HTTP/0.9'\<close>: for a request line of that version
  no status line and no header is written. The reply is the sequence of items written
  for the client: the status line, the headers, the blank line that ends them and the
  body. The reason phrase of the 501 reply, the \<^verbatim>\<open>Server\<close> and \<^verbatim>\<open>Date\<close> headers and the HTML
  page of an error reply are kept by their format and arguments.

  A \<open>request\<close> holds the attributes of a request whose request line had the version
  HTTP/1.1, and \<open>new_handler\<close> is its handler. A \<open>requestline\<close> is the request line itself,
  with any version, and \<open>parse_request\<close> gives its handler.
\<close>

datatype reason =
    Phrase string
  | Unsupported_method string
      \<comment> \<open>\<^verbatim>\<open>"Unsupported method (%r)" % self.command\<close>\<close>

datatype content =
    Bytes string
  | Error_page nat reason string
      \<comment> \<open>\<^verbatim>\<open>error_message_format\<close> filled with the code, the message and the explanation\<close>

datatype hvalue =
    Text string
  | Version_string
      \<comment> \<open>\<^verbatim>\<open>self.version_string()\<close>\<close>
  | Date_time millis
      \<comment> \<open>\<^verbatim>\<open>self.date_time_string()\<close> at the given clock reading\<close>
  | Length_of content
      \<comment> \<open>\<^verbatim>\<open>str(len(body))\<close>\<close>

datatype out =
    Status_line nat reason
  | Header string hvalue
  | End_headers
  | Body content

record request =
  command :: string
  path :: string
  client_address :: address
  rfile :: string

record handler = request +
  request_version :: string
  headers_buffer :: "out list"
  wfile :: "out list"
  sys :: world

definition new_handler :: "request \<Rightarrow> world \<Rightarrow> handler" where
  "new_handler r w =
     \<lparr>command = command r, path = path r, client_address = client_address r,
      rfile = rfile r, request_version = ''HTTP/1.1'', headers_buffer = [], wfile = [],
      sys = w\<rparr>"

record requestline =
  verb :: string
  target :: string
  version :: string
  peer :: address
  entity :: string


definition parse_request :: "requestline \<Rightarrow> world \<Rightarrow> handler" where
  \<comment> \<open>the attributes \<^verbatim>\<open>parse_request\<close> sets for a request line of three words that it
      accepts; a target that starts with two slashes is reduced to a single leading slash
      (\<^verbatim>\<open>self.path = '/' + self.path.lstrip('/')\<close>)\<close>
  "parse_request q w =
     \<lparr>command = verb q,
      path = (if take 2 (target q) = ''//''
              then CHR ''/'' # dropWhile (\<lambda>c. c = CHR ''/'') (target q)
              else target q),
      client_address = peer q, rfile = entity q, request_version = version q,
      headers_buffer = [], wfile = [], sys = w\<rparr>"

definition on_sys :: "(world \<Rightarrow> world) \<Rightarrow> handler \<Rightarrow> handler" where
  "on_sys f h = h\<lparr>sys := f (sys h)\<rparr>"

definition responses :: "nat \<Rightarrow> (string \<times> string) option" where
  \<comment> \<open>the entries of \<^verbatim>\<open>self.responses\<close> (from \<^verbatim>\<open>http.HTTPStatus\<close>) that this handler looks up\<close>
  "responses code =
     (if code = 200 then Some (''OK'', ''Request fulfilled, document follows'')
      else if code = 404 then Some (''Not Found'', ''Nothing matches the given URI'')
      else if code = 501 then Some (''Not Implemented'', ''Server does not support this operation'')
      else None)"

definition error_content_type :: string where
  "error_content_type = ''text/html;charset=utf-8''"

definition log_message :: "handler \<Rightarrow> handler" where
  \<comment> \<open>overridden in the source, lines 62 to 64: \<^verbatim>\<open>pass\<close>\<close>
  "log_message h = h"

definition log_request :: "nat \<Rightarrow> handler \<Rightarrow> handler" where
  "log_request code h = log_message h"

definition log_error :: "handler \<Rightarrow> handler" where
  "log_error h = log_message h"

definition send_response_only :: "nat \<Rightarrow> reason option \<Rightarrow> handler \<Rightarrow> handler" where
  "send_response_only code message h =
     (let message1 =
            (case message of
               Some m \<Rightarrow> m
             | None \<Rightarrow> (case responses code of Some (short, long) \<Rightarrow> Phrase short | None \<Rightarrow> Phrase ''''))
      in if request_version h \<noteq> ''HTTP/0.9''
         then h\<lparr>headers_buffer := headers_buffer h @ [Status_line code message1]\<rparr>
         else h)"

definition send_header :: "string \<Rightarrow> hvalue \<Rightarrow> handler \<Rightarrow> handler" where
  "send_header keyword v h =
     (if request_version h \<noteq> ''HTTP/0.9''
      then h\<lparr>headers_buffer := headers_buffer h @ [Header keyword v]\<rparr>
      else h)"

definition send_response :: "nat \<Rightarrow> reason option \<Rightarrow> handler \<Rightarrow> handler" where
  "send_response code message h =
     (let h1 = log_request code h;
          h2 = send_response_only code message h1;
          h3 = send_header ''Server'' Version_string h2
      in send_header ''Date'' (Date_time (clock (sys h3))) h3)"

definition end_headers :: "handler \<Rightarrow> handler" where
  \<comment> \<open>appends the blank line and flushes the buffer to \<^verbatim>\<open>wfile\<close>\<close>
  "end_headers h =
     (if request_version h \<noteq> ''HTTP/0.9''
      then h\<lparr>wfile := wfile h @ headers_buffer h @ [End_headers], headers_buffer := []\<rparr>
      else h)"

definition wfile_write :: "content \<Rightarrow> handler \<Rightarrow> handler" where
  "wfile_write c h = h\<lparr>wfile := wfile h @ [Body c]\<rparr>"

definition send_error :: "nat \<Rightarrow> reason option \<Rightarrow> handler \<Rightarrow> handler" where
  "send_error code message h =
     (let (shortmsg, longmsg) = (case responses code of Some sl \<Rightarrow> sl | None \<Rightarrow> (''???'', ''???''));
          message1 = (case message of None \<Rightarrow> Phrase shortmsg | Some m \<Rightarrow> m);
          explain = longmsg;
          h1 = log_error h;
          h2 = send_response code (Some message1) h1;
          h3 = send_header ''Connection'' (Text ''close'') h2;
          has_body = (200 \<le> code \<and> code \<noteq> 204 \<and> code \<noteq> 205 \<and> code \<noteq> 304);
          body = Error_page code message1 explain;
          h4 = (if has_body
                then send_header ''Content-Length'' (Length_of body)
                       (send_header ''Content-Type'' (Text error_content_type) h3)
                else h3);
          h5 = end_headers h4
      in if command h \<noteq> ''HEAD'' \<and> has_body then wfile_write body h5 else h5)"

subsection \<open>\<^verbatim>\<open>class GatekeeperAPIHandler\<close>\<close>

definition send_cors_headers :: "handler \<Rightarrow> handler" where
  "send_cors_headers h =
     (let h1 = send_header ''Access-Control-Allow-Origin'' (Text ''*'') h;
          h2 = send_header ''Access-Control-Allow-Methods'' (Text ''POST, OPTIONS'') h1
      in send_header ''Access-Control-Allow-Headers'' (Text ''Content-Type'') h2)"

definition handle_trigger :: "handler \<Rightarrow> handler" where
  "handle_trigger h =
     (let h1 = on_sys (print (Trigger_received (strftime (sys h)) (fst (client_address h)))) h;
          h2 = on_sys (sleep 100) h1;
          h3 = send_response 200 None h2;
          h4 = send_cors_headers h3;
          h5 = send_header ''Content-Type'' (Text ''text/plain'') h4;
          h6 = end_headers h5;
          h7 = wfile_write (Bytes ''OK'') h6
      in on_sys (print (Response_sent (strftime (sys h7)))) h7)"

definition do_POST :: "handler \<Rightarrow> exn + handler" where
  "do_POST h =
     (case urlparse (sys h) (path h) of
        Inl e \<Rightarrow> Inl e
      | Inr parsed_path \<Rightarrow>
          if parsed_path = ''/trigger'' then Inr (handle_trigger h)
          else Inr (send_error 404 (Some (Phrase ''Endpoint not found'')) h))"

definition do_OPTIONS :: "handler \<Rightarrow> exn + handler" where
  "do_OPTIONS h =
     (let h1 = send_response 200 None h;
          h2 = send_cors_headers h1
      in Inr (end_headers h2))"

subsection \<open>Dispatch and the server loop\<close>

text \<open>
  \<^verbatim>\<open>handle_one_request\<close> of the base class calls the method \<^verbatim>\<open>do_\<close> followed by the command
  when the handler has one, and answers 501 otherwise. The class above defines
  \<^verbatim>\<open>do_POST\<close> and \<^verbatim>\<open>do_OPTIONS\<close> and nothing else of that form.
\<close>

definition handle_one_request :: "handler \<Rightarrow> exn + handler" where
  "handle_one_request h =
     (if command h = ''POST'' then do_POST h
      else if command h = ''OPTIONS'' then do_OPTIONS h
      else Inr (send_error 501 (Some (Unsupported_method (command h))) h))"

definition process_request :: "request \<Rightarrow> world \<Rightarrow> out list \<times> world" where
  \<comment> \<open>one connection: a fresh handler for the request; an exception that escapes the
      handler is reported by the server, and the client gets nothing\<close>
  "process_request r w =
     (case handle_one_request (new_handler r w) of
        Inl e \<Rightarrow> ([], w)
      | Inr h \<Rightarrow> (wfile h, sys h))"

definition handle :: "requestline \<Rightarrow> world \<Rightarrow> out list \<times> world" where
  \<comment> \<open>one connection, from the request line on\<close>
  "handle q w =
     (case handle_one_request (parse_request q w) of
        Inl e \<Rightarrow> ([], w)
      | Inr h \<Rightarrow> (wfile h, sys h))"

fun serve_forever :: "request list \<Rightarrow> world \<Rightarrow> out list list \<times> world" where
  \<comment> \<open>the requests in their order of arrival, one at a time; waiting for the next
      connection takes some time\<close>
  "serve_forever [] w = ([], w)"
| "serve_forever (r # rs) w =
     (let (reply, w1) = process_request r (elapse 0 w);
          (replies, w2) = serve_forever rs w1
      in (reply # replies, w2))"

text \<open>Reading a reply.\<close>

fun status_of :: "out list \<Rightarrow> nat option" where
  "status_of [] = None"
| "status_of (Status_line code message # outs) = Some code"
| "status_of (x # outs) = status_of outs"

fun headers_of :: "out list \<Rightarrow> (string \<times> hvalue) list" where
  "headers_of [] = []"
| "headers_of (Header keyword v # outs) = (keyword, v) # headers_of outs"
| "headers_of (x # outs) = headers_of outs"


fun undated :: "out \<Rightarrow> out" where
  \<comment> \<open>a reply item without the clock reading of its \<^verbatim>\<open>Date\<close> header\<close>
  "undated (Header keyword (Date_time t)) = Header keyword (Date_time 0)"
| "undated x = x"

definition cors_names :: "string list" where
  "cors_names =
     [''Access-Control-Allow-Origin'', ''Access-Control-Allow-Methods'',
      ''Access-Control-Allow-Headers'']"

definition cors_free :: "out list \<Rightarrow> bool" where
  \<comment> \<open>no header of the reply has one of the three names\<close>
  "cors_free reply = list_all (\<lambda>(keyword, v). keyword \<notin> set cors_names) (headers_of reply)"

section \<open>Traces of the UDP responder\<close>

lemmas world_ops = recvfrom_def sendto_returns_def print_def sleep_def strftime_def elapse_def
  record_event_def Let_def

text \<open>
  One pass through the loop body adds eight events to the trace, in program order, and
  their time stamps never decrease.
\<close>

lemma loop_body_trace:
  "\<exists>t0 t1 t2 t3 t4 t5 t6 t7.
     trace (loop_body dg w) = trace w @
       [(t0, RecvFrom (take 1024 (payload dg)) (sender dg)),
        (t1, Print (Trigger_from t1 (sender dg) (hex (take 1024 (payload dg))))),
        (t2, SendTo [0x01] (sender dg)),
        (t3, Print (Sent_activated t3 (sender dg))),
        (t4, Sleep 500),
        (t5, SendTo [0x00] (sender dg)),
        (t6, Print (Sent_released t6 (sender dg))),
        (t7, Print (Plain (replicate 45 CHR ''-'')))]
     \<and> max (clock w) (arrival dg) = t0 \<and> t0 \<le> t1 \<and> t1 \<le> t2 \<and> t2 \<le> t3 \<and> t3 \<le> t4
     \<and> t4 + 500 \<le> t5 \<and> t5 \<le> t6 \<and> t6 \<le> t7 \<and> t7 \<le> clock (loop_body dg w)"
  by (simp add: loop_body_def world_ops)

lemma new_events_eq: "trace w' = trace w @ evs \<Longrightarrow> new_events w w' = evs"
  by (simp add: new_events_def)

lemma trace_loop_body: "\<exists>evs. trace (loop_body dg w) = trace w @ evs"
  using loop_body_trace [of dg w] by blast

lemma trace_receive_loop: "\<exists>evs. trace (receive_loop dgs w) = trace w @ evs"
proof (induction dgs arbitrary: w)
  case Nil
  show ?case by simp
next
  case (Cons dg dgs)
  obtain a where a: "trace (loop_body dg w) = trace w @ a"
    using trace_loop_body by blast
  obtain b where b: "trace (receive_loop dgs (loop_body dg w)) = trace (loop_body dg w) @ b"
    using Cons.IH by blast
  show ?case using a b by simp
qed

lemma new_events_compose:
  assumes "\<exists>a. trace w1 = trace w @ a" and "\<exists>b. trace w2 = trace w1 @ b"
  shows "new_events w w2 = new_events w w1 @ new_events w1 w2"
  using assms by (auto simp: new_events_def)

lemma new_events_receive_loop_Cons:
  "new_events w (receive_loop dgs (loop_body dg w)) =
     new_events w (loop_body dg w) @
     new_events (loop_body dg w) (receive_loop dgs (loop_body dg w))"
  by (rule new_events_compose [OF trace_loop_body trace_receive_loop])

lemma receive_loop_append:
  "receive_loop (ds @ es) w = receive_loop es (receive_loop ds w)"
  by (induction ds arbitrary: w) simp_all

lemma sends_loop_body:
  "\<exists>t1 t0. sends (new_events w (loop_body dg w)) =
      [(t1, SendTo [0x01] (sender dg)), (t0, SendTo [0x00] (sender dg))] \<and> t1 + 500 \<le> t0"
proof -
  obtain t0 t1 t2 t3 t4 t5 t6 t7 where
    tr: "trace (loop_body dg w) = trace w @
       [(t0, RecvFrom (take 1024 (payload dg)) (sender dg)),
        (t1, Print (Trigger_from t1 (sender dg) (hex (take 1024 (payload dg))))),
        (t2, SendTo [0x01] (sender dg)),
        (t3, Print (Sent_activated t3 (sender dg))),
        (t4, Sleep 500),
        (t5, SendTo [0x00] (sender dg)),
        (t6, Print (Sent_released t6 (sender dg))),
        (t7, Print (Plain (replicate 45 CHR ''-'')))]"
    and le: "t2 \<le> t3" "t3 \<le> t4" "t4 + 500 \<le> t5"
    using loop_body_trace [of dg w] by blast
  have "sends (new_events w (loop_body dg w)) =
      [(t2, SendTo [0x01] (sender dg)), (t5, SendTo [0x00] (sender dg))]"
    by (simp add: new_events_eq [OF tr] sends_def)
  moreover have "t2 + 500 \<le> t5" using le by arith
  ultimately show ?thesis by blast
qed

lemma untimed_sends_loop_body:
  "map snd (sends (new_events w (loop_body dg w))) =
     [SendTo [0x01] (sender dg), SendTo [0x00] (sender dg)]"
  using sends_loop_body [of w dg] by auto

lemma untimed_sends_receive_loop:
  "map snd (sends (new_events w (receive_loop dgs w))) =
     concat (map (\<lambda>dg. [SendTo [0x01] (sender dg), SendTo [0x00] (sender dg)]) dgs)"
proof (induction dgs arbitrary: w)
  case Nil
  show ?case by (simp add: new_events_def sends_def)
next
  case (Cons dg dgs)
  show ?case
    using Cons.IH [of "loop_body dg w"] untimed_sends_loop_body [of w dg]
    by (simp add: new_events_receive_loop_Cons sends_def)
qed

section \<open>The UDP responder: replies, order and delay\<close>

text \<open>
  When the socket layer refuses neither of its two \<open>sendto\<close> calls, the pass is the one
  in which they return; a refused first call ends the script before anything is sent,
  and a refused second call ends it after the 0x01 alone.
\<close>

lemma run_loop_body_returns:
  assumes "snd (sender dg) \<noteq> 0"
    and "length (sends (trace w)) \<notin> refused"
    and "Suc (length (sends (trace w))) \<notin> refused"
  shows "run_loop_body refused dg w = Inr (loop_body dg w)"
  using assms
  by (simp add: run_loop_body_def loop_body_def sendto_def world_ops sends_def)

lemma run_loop_body_first_refused:
  assumes "snd (sender dg) = 0 \<or> length (sends (trace w)) \<in> refused"
  shows "\<exists>w'. run_loop_body refused dg w = Inl (OSError, w') \<and> sends (new_events w w') = []"
  using assms
  by (auto simp: run_loop_body_def sendto_def world_ops sends_def new_events_def)

lemma run_loop_body_second_refused:
  assumes "snd (sender dg) \<noteq> 0"
    and "length (sends (trace w)) \<notin> refused"
    and "Suc (length (sends (trace w))) \<in> refused"
  shows "\<exists>w' t. run_loop_body refused dg w = Inl (OSError, w')
    \<and> sends (new_events w w') = [(t, SendTo [0x01] (sender dg))]"
  using assms
  by (simp add: run_loop_body_def sendto_def world_ops sends_def new_events_def)

lemma run_receive_loop_returns:
  "list_all (\<lambda>dg. snd (sender dg) \<noteq> 0) dgs \<Longrightarrow>
   run_receive_loop {} dgs w = Inr (receive_loop dgs w)"
  by (induction dgs arbitrary: w) (simp_all add: run_loop_body_returns)

text \<open>
  C1. The claim that every datagram received gets its two replies fails for a datagram
  whose sender has port 0: \<open>sendto\<close> raises \<^verbatim>\<open>OSError\<close> at the first reply, no reply is sent,
  and the script ends.
\<close>

theorem udp_port_zero_counterexample:
  "run_loop_body {}
     \<lparr>arrival = 5, payload = [0x01], sender = (''127.0.0.1'', 0)\<rparr>
     \<lparr>clock = 0, jitter = [], trace = [], bracketed_hosts = {}\<rparr> =
   Inl (OSError,
     \<lparr>clock = 5, jitter = [],
      trace = [(5, RecvFrom [0x01] (''127.0.0.1'', 0)),
               (5, Print (Trigger_from 5 (''127.0.0.1'', 0) ''01''))],
      bracketed_hosts = {}\<rparr>)
   \<and> sends [(5, RecvFrom [0x01] (''127.0.0.1'', 0)),
            (5, Print (Trigger_from 5 (''127.0.0.1'', 0) ''01''))] = []"
  by (simp add: run_loop_body_def sendto_def world_ops sends_def hex_def hexdigit_def)

text \<open>
  C1, as amended. For every datagram the responder receives from an address whose port
  is not 0, in any world, provided the socket layer refuses neither of the two \<open>sendto\<close>
  calls of the pass: the pass completes, and it calls \<open>sendto\<close> exactly twice, both times
  with that address, first with the single byte 0x01 and then with the single byte 0x00,
  the second call at least 500 ms (the delay of the script) after the first. Over a whole
  run in which no sender has port 0 and nothing is refused, the replies are these two,
  datagram after datagram.
\<close>

theorem udp_two_replies:
  "(snd (sender dg) \<noteq> 0 \<and> length (sends (trace w)) \<notin> refused
      \<and> Suc (length (sends (trace w))) \<notin> refused \<longrightarrow>
      (\<exists>w'. run_loop_body refused dg w = Inr w'
         \<and> (\<exists>t1 t0. sends (new_events w w') =
              [(t1, SendTo [0x01] (sender dg)), (t0, SendTo [0x00] (sender dg))]
              \<and> t1 + 500 \<le> t0)))
   \<and> (list_all (\<lambda>dg. snd (sender dg) \<noteq> 0) dgs \<longrightarrow>
      (\<exists>w'. run_receive_loop {} dgs w = Inr w'
         \<and> map snd (sends (new_events w w')) =
             concat (map (\<lambda>dg. [SendTo [0x01] (sender dg), SendTo [0x00] (sender dg)]) dgs)))"
  using run_loop_body_returns [of dg w refused] sends_loop_body [of w dg]
    run_receive_loop_returns [of dgs w] untimed_sends_receive_loop [of w dgs]
  by simp

theorem udp_two_replies_witness:
  "run_loop_body {7}
     \<lparr>arrival = 5, payload = [0xAB, 0x01], sender = (''10.0.0.7'', 4242)\<rparr>
     \<lparr>clock = 0, jitter = [1, 2, 3], trace = [], bracketed_hosts = {}\<rparr> =
   Inr \<lparr>clock = 511, jitter = [],
      trace = [(5, RecvFrom [0xAB, 0x01] (''10.0.0.7'', 4242)),
               (6, Print (Trigger_from 6 (''10.0.0.7'', 4242) ''ab01'')),
               (8, SendTo [0x01] (''10.0.0.7'', 4242)),
               (11, Print (Sent_activated 11 (''10.0.0.7'', 4242))),
               (11, Sleep 500),
               (511, SendTo [0x00] (''10.0.0.7'', 4242)),
               (511, Print (Sent_released 511 (''10.0.0.7'', 4242))),
               (511, Print (Plain (replicate 45 CHR ''-'')))],
      bracketed_hosts = {}\<rparr>
   \<and> run_receive_loop {}
     [\<lparr>arrival = 5, payload = [0xAB, 0x01], sender = (''10.0.0.7'', 4242)\<rparr>]
     \<lparr>clock = 0, jitter = [1, 2, 3], trace = [], bracketed_hosts = {}\<rparr> =
   run_loop_body {7}
     \<lparr>arrival = 5, payload = [0xAB, 0x01], sender = (''10.0.0.7'', 4242)\<rparr>
     \<lparr>clock = 0, jitter = [1, 2, 3], trace = [], bracketed_hosts = {}\<rparr>"
  using udp_two_replies
    [where dg = "\<lparr>arrival = 5, payload = [0xAB, 0x01], sender = (''10.0.0.7'', 4242)\<rparr>"
       and w = "\<lparr>clock = 0, jitter = [1, 2, 3], trace = [], bracketed_hosts = {}\<rparr>"
       and refused = "{7}"
       and dgs = "[\<lparr>arrival = 5, payload = [0xAB, 0x01], sender = (''10.0.0.7'', 4242)\<rparr>]"]
  by (simp add: run_loop_body_def sendto_def world_ops sends_def hex_def hexdigit_def)

section \<open>The UDP responder: serialization\<close>

lemma io_loop_body:
  "\<exists>r a z. io (new_events w (loop_body dg w)) =
      [(r, RecvFrom (take 1024 (payload dg)) (sender dg)),
       (a, SendTo [0x01] (sender dg)), (z, SendTo [0x00] (sender dg))]
     \<and> max (clock w) (arrival dg) = r \<and> r \<le> a \<and> a + 500 \<le> z \<and> z \<le> clock (loop_body dg w)"
proof -
  obtain t0 t1 t2 t3 t4 t5 t6 t7 where
    tr: "trace (loop_body dg w) = trace w @
       [(t0, RecvFrom (take 1024 (payload dg)) (sender dg)),
        (t1, Print (Trigger_from t1 (sender dg) (hex (take 1024 (payload dg))))),
        (t2, SendTo [0x01] (sender dg)),
        (t3, Print (Sent_activated t3 (sender dg))),
        (t4, Sleep 500),
        (t5, SendTo [0x00] (sender dg)),
        (t6, Print (Sent_released t6 (sender dg))),
        (t7, Print (Plain (replicate 45 CHR ''-'')))]"
    and le: "max (clock w) (arrival dg) = t0" "t0 \<le> t1" "t1 \<le> t2" "t2 \<le> t3" "t3 \<le> t4"
      "t4 + 500 \<le> t5" "t5 \<le> t6" "t6 \<le> t7" "t7 \<le> clock (loop_body dg w)"
    using loop_body_trace [of dg w] by blast
  have "io (new_events w (loop_body dg w)) =
      [(t0, RecvFrom (take 1024 (payload dg)) (sender dg)),
       (t2, SendTo [0x01] (sender dg)), (t5, SendTo [0x00] (sender dg))]"
    by (simp add: new_events_eq [OF tr] io_def)
  moreover have "t0 \<le> t2" "t2 + 500 \<le> t5" "t5 \<le> clock (loop_body dg w)"
    using le by arith+
  ultimately show ?thesis using le(1) by blast
qed

lemma io_two_datagrams:
  "\<exists>r1 a1 z1 r2 a2 z2.
     io (new_events w (receive_loop [d1, d2] w)) =
       [(r1, RecvFrom (take 1024 (payload d1)) (sender d1)),
        (a1, SendTo [0x01] (sender d1)), (z1, SendTo [0x00] (sender d1)),
        (r2, RecvFrom (take 1024 (payload d2)) (sender d2)),
        (a2, SendTo [0x01] (sender d2)), (z2, SendTo [0x00] (sender d2))]
     \<and> r1 \<le> a1 \<and> a1 + 500 \<le> z1 \<and> z1 \<le> r2 \<and> r2 \<le> a2 \<and> a2 + 500 \<le> z2"
proof -
  let ?w1 = "loop_body d1 w"
  obtain r1 a1 z1 where
    one: "io (new_events w ?w1) =
      [(r1, RecvFrom (take 1024 (payload d1)) (sender d1)),
       (a1, SendTo [0x01] (sender d1)), (z1, SendTo [0x00] (sender d1))]"
    and le1: "r1 \<le> a1" "a1 + 500 \<le> z1" "z1 \<le> clock ?w1"
    using io_loop_body [of w d1] by blast
  obtain r2 a2 z2 where
    two: "io (new_events ?w1 (loop_body d2 ?w1)) =
      [(r2, RecvFrom (take 1024 (payload d2)) (sender d2)),
       (a2, SendTo [0x01] (sender d2)), (z2, SendTo [0x00] (sender d2))]"
    and le2: "max (clock ?w1) (arrival d2) = r2" "r2 \<le> a2" "a2 + 500 \<le> z2"
    using io_loop_body [of ?w1 d2] by blast
  have "new_events w (receive_loop [d1, d2] w) =
      new_events w ?w1 @ new_events ?w1 (loop_body d2 ?w1)"
    using new_events_receive_loop_Cons [of w "[d2]" d1] by simp
  then have "io (new_events w (receive_loop [d1, d2] w)) =
      io (new_events w ?w1) @ io (new_events ?w1 (loop_body d2 ?w1))"
    by (simp add: io_def)
  moreover have "z1 \<le> r2" using le1(3) le2(1) by arith
  ultimately show ?thesis using one two le1 le2 by auto
qed

text \<open>
  C4. Two datagrams handled one after the other: the calls on the socket are, in this
  order, the read of the first datagram, its 0x01 and its 0x00, and only then the read
  of the second datagram, its 0x01 and its 0x00. The second datagram is read no earlier
  than the first datagram's 0x00 was sent, so a datagram that arrived while the
  responder slept for the first one waits until that sequence is complete.
\<close>

theorem udp_serialized:
  "\<exists>r1 a1 z1 r2 a2 z2.
     io (new_events w (receive_loop [d1, d2] w)) =
       [(r1, RecvFrom (take 1024 (payload d1)) (sender d1)),
        (a1, SendTo [0x01] (sender d1)), (z1, SendTo [0x00] (sender d1)),
        (r2, RecvFrom (take 1024 (payload d2)) (sender d2)),
        (a2, SendTo [0x01] (sender d2)), (z2, SendTo [0x00] (sender d2))]
     \<and> r1 \<le> a1 \<and> a1 + 500 \<le> z1 \<and> z1 \<le> r2 \<and> r2 \<le> a2 \<and> a2 + 500 \<le> z2
     \<and> (arrival d2 < z1 \<longrightarrow> arrival d2 < r2)"
proof -
  obtain r1 a1 z1 r2 a2 z2 where
    "io (new_events w (receive_loop [d1, d2] w)) =
       [(r1, RecvFrom (take 1024 (payload d1)) (sender d1)),
        (a1, SendTo [0x01] (sender d1)), (z1, SendTo [0x00] (sender d1)),
        (r2, RecvFrom (take 1024 (payload d2)) (sender d2)),
        (a2, SendTo [0x01] (sender d2)), (z2, SendTo [0x00] (sender d2))]"
    and "r1 \<le> a1" "a1 + 500 \<le> z1" "z1 \<le> r2" "r2 \<le> a2" "a2 + 500 \<le> z2"
    using io_two_datagrams [of w d1 d2] by blast
  moreover from \<open>z1 \<le> r2\<close> have "arrival d2 < z1 \<longrightarrow> arrival d2 < r2" by arith
  ultimately show ?thesis by blast
qed

theorem udp_serialized_witness:
  "io (new_events \<lparr>clock = 0, jitter = [1, 2, 3], trace = [], bracketed_hosts = {}\<rparr>
       (receive_loop
          [\<lparr>arrival = 10, payload = [0x01], sender = (''10.0.0.7'', 4242)\<rparr>,
           \<lparr>arrival = 200, payload = [0x02], sender = (''10.0.0.9'', 5353)\<rparr>]
          \<lparr>clock = 0, jitter = [1, 2, 3], trace = [], bracketed_hosts = {}\<rparr>)) =
     [(10, RecvFrom [0x01] (''10.0.0.7'', 4242)),
      (13, SendTo [0x01] (''10.0.0.7'', 4242)), (516, SendTo [0x00] (''10.0.0.7'', 4242)),
      (516, RecvFrom [0x02] (''10.0.0.9'', 5353)),
      (516, SendTo [0x01] (''10.0.0.9'', 5353)), (1016, SendTo [0x00] (''10.0.0.9'', 5353))]
   \<and> (200::nat) < 516"
  using udp_serialized [of "\<lparr>clock = 0, jitter = [1, 2, 3], trace = [], bracketed_hosts = {}\<rparr>"
      "\<lparr>arrival = 10, payload = [0x01], sender = (''10.0.0.7'', 4242)\<rparr>"
      "\<lparr>arrival = 200, payload = [0x02], sender = (''10.0.0.9'', 5353)\<rparr>"]
  by (simp add: loop_body_def world_ops new_events_def io_def)

section \<open>The UDP responder: the delay\<close>

lemma sends_and_sleeps_loop_body:
  "\<exists>a s z. sends_and_sleeps (new_events w (loop_body dg w)) =
      [(a, SendTo [0x01] (sender dg)), (s, Sleep 500), (z, SendTo [0x00] (sender dg))]
     \<and> a \<le> s \<and> s + 500 \<le> z"
proof -
  obtain t0 t1 t2 t3 t4 t5 t6 t7 where
    tr: "trace (loop_body dg w) = trace w @
       [(t0, RecvFrom (take 1024 (payload dg)) (sender dg)),
        (t1, Print (Trigger_from t1 (sender dg) (hex (take 1024 (payload dg))))),
        (t2, SendTo [0x01] (sender dg)),
        (t3, Print (Sent_activated t3 (sender dg))),
        (t4, Sleep 500),
        (t5, SendTo [0x00] (sender dg)),
        (t6, Print (Sent_released t6 (sender dg))),
        (t7, Print (Plain (replicate 45 CHR ''-'')))]"
    and le: "t2 \<le> t3" "t3 \<le> t4" "t4 + 500 \<le> t5"
    using loop_body_trace [of dg w] by blast
  have "sends_and_sleeps (new_events w (loop_body dg w)) =
      [(t2, SendTo [0x01] (sender dg)), (t4, Sleep 500), (t5, SendTo [0x00] (sender dg))]"
    by (simp add: new_events_eq [OF tr] sends_and_sleeps_def)
  moreover have "t2 \<le> t4" using le by arith
  ultimately show ?thesis using le(3) by blast
qed

lemma loop_body_no_jitter:
  "new_events (w\<lparr>jitter := []\<rparr>) (loop_body dg (w\<lparr>jitter := []\<rparr>)) =
     (let t = max (clock w) (arrival dg); data = take 1024 (payload dg); addr = sender dg
      in [(t, RecvFrom data addr),
          (t, Print (Trigger_from t addr (hex data))),
          (t, SendTo [0x01] addr),
          (t, Print (Sent_activated t addr)),
          (t, Sleep 500),
          (t + 500, SendTo [0x00] addr),
          (t + 500, Print (Sent_released (t + 500) addr)),
          (t + 500, Print (Plain (replicate 45 CHR ''-'')))])"
  by (simp add: loop_body_def world_ops new_events_def)

text \<open>
  C5. Between its two replies the responder blocks in one \<open>sleep\<close> of 500 ms, so the 0x00
  reply follows the 0x01 reply by at least half a second; when no call takes longer than
  asked, it follows by exactly 500 ms, which is less than the 1000 ms of the docstring.
\<close>

theorem udp_delay_is_half_second:
  "(\<exists>a s z. sends_and_sleeps (new_events w (loop_body dg w)) =
      [(a, SendTo [0x01] (sender dg)), (s, Sleep 500), (z, SendTo [0x00] (sender dg))]
     \<and> a \<le> s \<and> s + 500 \<le> z)
   \<and> (\<exists>a. sends (new_events (w\<lparr>jitter := []\<rparr>) (loop_body dg (w\<lparr>jitter := []\<rparr>))) =
      [(a, SendTo [0x01] (sender dg)), (a + 500, SendTo [0x00] (sender dg))] \<and> a + 500 < a + 1000)"
  using sends_and_sleeps_loop_body [of w dg] loop_body_no_jitter [of w dg]
  by (simp add: sends_def Let_def)

theorem udp_delay_is_half_second_witness:
  "sends_and_sleeps (new_events
       \<lparr>clock = 0, jitter = [], trace = [], bracketed_hosts = {}\<rparr>
       (loop_body \<lparr>arrival = 5, payload = [0xAB, 0x01], sender = (''10.0.0.7'', 4242)\<rparr>
          \<lparr>clock = 0, jitter = [], trace = [], bracketed_hosts = {}\<rparr>)) =
     [(5, SendTo [0x01] (''10.0.0.7'', 4242)), (5, Sleep 500),
      (505, SendTo [0x00] (''10.0.0.7'', 4242))]"
  using udp_delay_is_half_second [of "\<lparr>clock = 0, jitter = [], trace = [], bracketed_hosts = {}\<rparr>"
      "\<lparr>arrival = 5, payload = [0xAB, 0x01], sender = (''10.0.0.7'', 4242)\<rparr>"]
  by (simp add: loop_body_def world_ops new_events_def sends_and_sleeps_def)

section \<open>The UDP responder: what the payload and the history can change\<close>

lemma untimed_loop_body:
  "untimed (new_events w (loop_body dg w)) =
     (let data = take 1024 (payload dg); addr = sender dg
      in [RecvFrom data addr,
          Print (Trigger_from 0 addr (hex data)),
          SendTo [0x01] addr,
          Print (Sent_activated 0 addr),
          Sleep 500,
          SendTo [0x00] addr,
          Print (Sent_released 0 addr),
          Print (Plain (replicate 45 CHR ''-''))])"
  by (simp add: loop_body_def world_ops new_events_def untimed_def)

text \<open>
  C8. Two datagrams that differ only in their payload, received in the same world: the
  two passes through the loop body make the same \<open>sendto\<close> calls at the same times (two
  replies, 0x01 then 0x00, to the sender), leave the clock the same, and their traces
  are equal once the bytes received and the hex string logged for them are erased.
\<close>

theorem udp_payload_ignored:
  "without_payload (new_events w (loop_body (dg\<lparr>payload := p\<rparr>) w)) =
     without_payload (new_events w (loop_body (dg\<lparr>payload := q\<rparr>) w))
   \<and> sends (new_events w (loop_body (dg\<lparr>payload := p\<rparr>) w)) =
     sends (new_events w (loop_body (dg\<lparr>payload := q\<rparr>) w))
   \<and> clock (loop_body (dg\<lparr>payload := p\<rparr>) w) = clock (loop_body (dg\<lparr>payload := q\<rparr>) w)"
  by (simp add: loop_body_def world_ops new_events_def without_payload_def sends_def)

theorem udp_payload_ignored_witness:
  "sends (new_events \<lparr>clock = 0, jitter = [1, 2, 3], trace = [], bracketed_hosts = {}\<rparr>
     (loop_body \<lparr>arrival = 5, payload = [0xAB, 0x01], sender = (''10.0.0.7'', 4242)\<rparr>
        \<lparr>clock = 0, jitter = [1, 2, 3], trace = [], bracketed_hosts = {}\<rparr>)) =
   sends (new_events \<lparr>clock = 0, jitter = [1, 2, 3], trace = [], bracketed_hosts = {}\<rparr>
     (loop_body \<lparr>arrival = 5, payload = [], sender = (''10.0.0.7'', 4242)\<rparr>
        \<lparr>clock = 0, jitter = [1, 2, 3], trace = [], bracketed_hosts = {}\<rparr>))
   \<and> hex [0xAB, 0x01 :: byte] = ''ab01'' \<and> hex ([] :: byte list) = []"
  using udp_payload_ignored
    [where w = "\<lparr>clock = 0, jitter = [1, 2, 3], trace = [], bracketed_hosts = {}\<rparr>"
       and dg = "\<lparr>arrival = 5, payload = [], sender = (''10.0.0.7'', 4242)\<rparr>"
       and p = "[0xAB, 0x01]" and q = "[]"]
  by (simp add: hex_def hexdigit_def)

section \<open>Replies of the HTTP responder\<close>

lemma split_scheme_slash: "split_scheme (CHR ''/'' # u) = ('''', CHR ''/'' # u)"
  by (simp add: split_scheme_def is_ascii_alpha_def split: option.split)

lemma urlparse_trigger_plain: "urlparse w ''/trigger'' = Inr ''/trigger''"
  by (simp add: urlparse_def urlsplit_def lstrip_c0_def remove_unsafe_def split_scheme_slash
      before_def uses_params_def)



lemma urlparse_cong:
  assumes "bracketed_hosts w1 = bracketed_hosts w2"
  shows "urlparse w1 u = urlparse w2 u"
  unfolding urlparse_def urlsplit_def assms by (rule refl)

text \<open>The primitives of the base class, for a request version that is not HTTP/0.9.\<close>

lemma send_header_1x:
  "request_version h \<noteq> ''HTTP/0.9'' \<Longrightarrow>
   send_header keyword v h = h\<lparr>headers_buffer := headers_buffer h @ [Header keyword v]\<rparr>"
  by (simp add: send_header_def)

lemma send_response_1x:
  "request_version h \<noteq> ''HTTP/0.9'' \<Longrightarrow>
   send_response code (Some m) h =
     h\<lparr>headers_buffer := headers_buffer h @
        [Status_line code m, Header ''Server'' Version_string,
         Header ''Date'' (Date_time (clock (sys h)))]\<rparr>"
  by (simp add: send_response_def send_response_only_def log_request_def log_message_def
      send_header_def)

lemma send_response_200_1x:
  "request_version h \<noteq> ''HTTP/0.9'' \<Longrightarrow>
   send_response 200 None h =
     h\<lparr>headers_buffer := headers_buffer h @
        [Status_line 200 (Phrase ''OK''), Header ''Server'' Version_string,
         Header ''Date'' (Date_time (clock (sys h)))]\<rparr>"
  by (simp add: send_response_def send_response_only_def log_request_def log_message_def
      send_header_def responses_def)

lemma send_cors_headers_1x:
  "request_version h \<noteq> ''HTTP/0.9'' \<Longrightarrow>
   send_cors_headers h =
     h\<lparr>headers_buffer := headers_buffer h @
        [Header ''Access-Control-Allow-Origin'' (Text ''*''),
         Header ''Access-Control-Allow-Methods'' (Text ''POST, OPTIONS''),
         Header ''Access-Control-Allow-Headers'' (Text ''Content-Type'')]\<rparr>"
  by (simp add: send_cors_headers_def send_header_def)

lemma end_headers_1x:
  "request_version h \<noteq> ''HTTP/0.9'' \<Longrightarrow>
   end_headers h = h\<lparr>wfile := wfile h @ headers_buffer h @ [End_headers], headers_buffer := []\<rparr>"
  by (simp add: end_headers_def)

lemma send_error_1x:
  assumes "request_version h \<noteq> ''HTTP/0.9''" and "responses code = Some (short, long)"
    and "code = 404 \<or> code = 501"
  shows "wfile (send_error code (Some m) h) =
      wfile h @ headers_buffer h @
      [Status_line code m,
       Header ''Server'' Version_string,
       Header ''Date'' (Date_time (clock (sys h))),
       Header ''Connection'' (Text ''close''),
       Header ''Content-Type'' (Text ''text/html;charset=utf-8''),
       Header ''Content-Length'' (Length_of (Error_page code m long)),
       End_headers] @
      (if command h = ''HEAD'' then [] else [Body (Error_page code m long)])"
    and "sys (send_error code (Some m) h) = sys h"
  using assms
  by (auto simp: send_error_def log_error_def log_message_def send_response_1x send_header_1x
      end_headers_1x wfile_write_def error_content_type_def Let_def)

text \<open>The same primitives for a request version that is HTTP/0.9: nothing is written.\<close>

lemma send_response_09:
  "request_version h = ''HTTP/0.9'' \<Longrightarrow> send_response code message h = h"
  by (simp add: send_response_def send_response_only_def log_request_def log_message_def
      send_header_def)

lemma send_cors_headers_09:
  "request_version h = ''HTTP/0.9'' \<Longrightarrow> send_cors_headers h = h"
  by (simp add: send_cors_headers_def send_header_def)

lemma send_header_09:
  "request_version h = ''HTTP/0.9'' \<Longrightarrow> send_header keyword v h = h"
  by (simp add: send_header_def)

lemma end_headers_09:
  "request_version h = ''HTTP/0.9'' \<Longrightarrow> end_headers h = h"
  by (simp add: end_headers_def)

lemma send_error_09:
  assumes "request_version h = ''HTTP/0.9''" and "responses code = Some (short, long)"
    and "code = 404 \<or> code = 501"
  shows "wfile (send_error code (Some m) h) =
      wfile h @ (if command h = ''HEAD'' then [] else [Body (Error_page code m long)])"
    and "sys (send_error code (Some m) h) = sys h"
  using assms
  by (auto simp: send_error_def log_error_def log_message_def send_response_09 send_header_09
      end_headers_09 wfile_write_def Let_def)

text \<open>\<open>handle_trigger\<close> and \<open>do_OPTIONS\<close>.\<close>

lemma handle_trigger_sys:
  "sys (handle_trigger h) =
     (let w1 = print (Trigger_received (strftime (sys h)) (fst (client_address h))) (sys h);
          w2 = sleep 100 w1
      in print (Response_sent (strftime w2)) w2)"
  by (cases "request_version h = ''HTTP/0.9''")
    (simp_all add: handle_trigger_def on_sys_def Let_def send_response_09 send_cors_headers_09
      send_header_09 end_headers_09 send_response_200_1x send_cors_headers_1x send_header_1x
      end_headers_1x wfile_write_def)

lemma handle_trigger_1x:
  "request_version h \<noteq> ''HTTP/0.9'' \<Longrightarrow>
   wfile (handle_trigger h) =
     wfile h @ headers_buffer h @
     [Status_line 200 (Phrase ''OK''),
      Header ''Server'' Version_string,
      Header ''Date'' (Date_time (clock (sleep 100
         (print (Trigger_received (strftime (sys h)) (fst (client_address h))) (sys h))))),
      Header ''Access-Control-Allow-Origin'' (Text ''*''),
      Header ''Access-Control-Allow-Methods'' (Text ''POST, OPTIONS''),
      Header ''Access-Control-Allow-Headers'' (Text ''Content-Type''),
      Header ''Content-Type'' (Text ''text/plain''),
      End_headers,
      Body (Bytes ''OK'')]"
  by (simp add: handle_trigger_def on_sys_def Let_def send_response_200_1x send_cors_headers_1x
      send_header_1x end_headers_1x wfile_write_def)


lemma do_OPTIONS_1x:
  "request_version h \<noteq> ''HTTP/0.9'' \<Longrightarrow>
   do_OPTIONS h = Inr (h\<lparr>wfile := wfile h @ headers_buffer h @
     [Status_line 200 (Phrase ''OK''),
      Header ''Server'' Version_string,
      Header ''Date'' (Date_time (clock (sys h))),
      Header ''Access-Control-Allow-Origin'' (Text ''*''),
      Header ''Access-Control-Allow-Methods'' (Text ''POST, OPTIONS''),
      Header ''Access-Control-Allow-Headers'' (Text ''Content-Type''),
      End_headers], headers_buffer := []\<rparr>)"
  by (simp add: do_OPTIONS_def Let_def send_response_200_1x send_cors_headers_1x end_headers_1x)


text \<open>The handler of a \<open>request\<close> and of a \<open>requestline\<close>.\<close>

lemma new_handler_fields:
  "command (new_handler r w) = command r"
  "path (new_handler r w) = path r"
  "client_address (new_handler r w) = client_address r"
  "request_version (new_handler r w) \<noteq> ''HTTP/0.9''"
  "headers_buffer (new_handler r w) = []"
  "wfile (new_handler r w) = []"
  "sys (new_handler r w) = w"
  by (simp_all add: new_handler_def)

lemma parse_request_fields:
  "command (parse_request q w) = verb q"
  "client_address (parse_request q w) = peer q"
  "request_version (parse_request q w) = version q"
  "headers_buffer (parse_request q w) = []"
  "wfile (parse_request q w) = []"
  "sys (parse_request q w) = w"
  by (simp_all add: parse_request_def)


text \<open>The reply to each kind of request, written out.\<close>

lemma reply_trigger:
  assumes "command r = ''POST''" and "urlparse w (path r) = Inr ''/trigger''"
  shows "\<exists>t. fst (process_request r w) =
      [Status_line 200 (Phrase ''OK''),
       Header ''Server'' Version_string,
       Header ''Date'' (Date_time t),
       Header ''Access-Control-Allow-Origin'' (Text ''*''),
       Header ''Access-Control-Allow-Methods'' (Text ''POST, OPTIONS''),
       Header ''Access-Control-Allow-Headers'' (Text ''Content-Type''),
       Header ''Content-Type'' (Text ''text/plain''),
       End_headers,
       Body (Bytes ''OK'')] \<and> clock w + 100 \<le> t"
proof -
  let ?t = "clock (sleep 100
     (print (Trigger_received (strftime w) (fst (client_address r))) w))"
  have "fst (process_request r w) =
      [Status_line 200 (Phrase ''OK''),
       Header ''Server'' Version_string,
       Header ''Date'' (Date_time ?t),
       Header ''Access-Control-Allow-Origin'' (Text ''*''),
       Header ''Access-Control-Allow-Methods'' (Text ''POST, OPTIONS''),
       Header ''Access-Control-Allow-Headers'' (Text ''Content-Type''),
       Header ''Content-Type'' (Text ''text/plain''),
       End_headers,
       Body (Bytes ''OK'')]"
    using assms
    by (simp add: process_request_def handle_one_request_def do_POST_def new_handler_fields
        handle_trigger_1x)
  moreover have "clock w + 100 \<le> ?t"
    by (simp add: world_ops)
  ultimately show ?thesis by blast
qed

lemma world_trigger:
  assumes "command r = ''POST''" and "urlparse w (path r) = Inr ''/trigger''"
  shows "bracketed_hosts (snd (process_request r w)) = bracketed_hosts w"
    and "untimed (new_events w (snd (process_request r w))) =
      [Print (Trigger_received 0 (fst (client_address r))), Sleep 100, Print (Response_sent 0)]"
  using assms
  by (simp_all add: process_request_def handle_one_request_def do_POST_def new_handler_fields
      handle_trigger_sys world_ops new_events_def untimed_def)

lemma reply_not_found:
  assumes "command r = ''POST''" and "urlparse w (path r) = Inr p" and "p \<noteq> ''/trigger''"
  shows "process_request r w =
     ([Status_line 404 (Phrase ''Endpoint not found''),
       Header ''Server'' Version_string,
       Header ''Date'' (Date_time (clock w)),
       Header ''Connection'' (Text ''close''),
       Header ''Content-Type'' (Text ''text/html;charset=utf-8''),
       Header ''Content-Length''
         (Length_of (Error_page 404 (Phrase ''Endpoint not found'') ''Nothing matches the given URI'')),
       End_headers,
       Body (Error_page 404 (Phrase ''Endpoint not found'') ''Nothing matches the given URI'')], w)"
  using assms
    send_error_1x [of "new_handler r w" 404 "''Not Found''" "''Nothing matches the given URI''"
      "Phrase ''Endpoint not found''"]
  by (simp add: process_request_def handle_one_request_def do_POST_def new_handler_fields
      responses_def)

lemma reply_value_error:
  assumes "command r = ''POST''" and "urlparse w (path r) = Inl e"
  shows "process_request r w = ([], w)"
  using assms
  by (simp add: process_request_def handle_one_request_def do_POST_def new_handler_fields)

text \<open>
  A request target with an unmatched square bracket in its host makes \<open>urlparse\<close> raise:
  the exception leaves \<open>do_POST\<close>, and the client gets no reply.
\<close>

lemma reply_unparsable_target:
  "process_request (r\<lparr>command := ''POST'', path := ''http://[/trigger''\<rparr>) w = ([], w)"
proof -
  have "urlparse w ''http://[/trigger'' = Inl ValueError"
    by (simp add: urlparse_def urlsplit_def lstrip_c0_def remove_unsafe_def split_scheme_def
        is_ascii_alpha_def scheme_char_def splitnetloc_def netloc_delim_def)
  then show ?thesis by (simp add: reply_value_error)
qed

lemma reply_options:
  assumes "command r = ''OPTIONS''"
  shows "process_request r w =
     ([Status_line 200 (Phrase ''OK''),
       Header ''Server'' Version_string,
       Header ''Date'' (Date_time (clock w)),
       Header ''Access-Control-Allow-Origin'' (Text ''*''),
       Header ''Access-Control-Allow-Methods'' (Text ''POST, OPTIONS''),
       Header ''Access-Control-Allow-Headers'' (Text ''Content-Type''),
       End_headers], w)"
  using assms
  by (simp add: process_request_def handle_one_request_def do_OPTIONS_1x new_handler_fields)

lemma reply_unsupported:
  assumes "command r \<noteq> ''POST''" and "command r \<noteq> ''OPTIONS''"
  shows "process_request r w =
     ([Status_line 501 (Unsupported_method (command r)),
       Header ''Server'' Version_string,
       Header ''Date'' (Date_time (clock w)),
       Header ''Connection'' (Text ''close''),
       Header ''Content-Type'' (Text ''text/html;charset=utf-8''),
       Header ''Content-Length''
         (Length_of (Error_page 501 (Unsupported_method (command r))
            ''Server does not support this operation'')),
       End_headers] @
      (if command r = ''HEAD'' then []
       else [Body (Error_page 501 (Unsupported_method (command r))
            ''Server does not support this operation'')]), w)"
  using assms
    send_error_1x [of "new_handler r w" 501 "''Not Implemented''"
      "''Server does not support this operation''" "Unsupported_method (command r)"]
  by (simp add: process_request_def handle_one_request_def new_handler_fields responses_def)

section \<open>The HTTP responder: the trigger, the preflight and the rest\<close>








lemma handle_not_found_line_09:
  assumes "version q = ''HTTP/0.9''" and "verb q = ''POST''"
    and "urlparse w (path (parse_request q w)) = Inr p" and "p \<noteq> ''/trigger''"
  shows "handle q w =
     ([Body (Error_page 404 (Phrase ''Endpoint not found'') ''Nothing matches the given URI'')], w)"
  using assms
    send_error_09 [of "parse_request q w" 404 "''Not Found''" "''Nothing matches the given URI''"
      "Phrase ''Endpoint not found''"]
  by (simp add: handle_def handle_one_request_def do_POST_def parse_request_fields responses_def)










section \<open>The HTTP responder: CORS headers and the parsed path\<close>

lemma cors_free_cases:
  "cors_free (fst (process_request r w)) \<or>
   (command r = ''OPTIONS'' \<or> (command r = ''POST'' \<and> urlparse w (path r) = Inr ''/trigger''))"
proof (cases "command r = ''POST''")
  case True
  show ?thesis
  proof (cases "urlparse w (path r)")
    case (Inl e)
    then show ?thesis
      using True by (simp add: reply_value_error cors_free_def)
  next
    case (Inr p)
    then show ?thesis
      using True by (cases "p = ''/trigger''") (simp_all add: reply_not_found cors_free_def cors_names_def)
  qed
next
  case False
  then show ?thesis
    by (cases "command r = ''OPTIONS''") (simp_all add: reply_unsupported cors_free_def cors_names_def)
qed

lemma status_with_cors:
  assumes "command r = ''OPTIONS'' \<or> (command r = ''POST'' \<and> urlparse w (path r) = Inr ''/trigger'')"
  shows "status_of (fst (process_request r w)) = Some 200"
proof (cases "command r = ''OPTIONS''")
  case True
  then show ?thesis by (simp add: reply_options)
next
  case False
  then have "command r = ''POST''" and "urlparse w (path r) = Inr ''/trigger''"
    using assms by auto
  then obtain t where "fst (process_request r w) =
      [Status_line 200 (Phrase ''OK''),
       Header ''Server'' Version_string,
       Header ''Date'' (Date_time t),
       Header ''Access-Control-Allow-Origin'' (Text ''*''),
       Header ''Access-Control-Allow-Methods'' (Text ''POST, OPTIONS''),
       Header ''Access-Control-Allow-Headers'' (Text ''Content-Type''),
       Header ''Content-Type'' (Text ''text/plain''),
       End_headers,
       Body (Bytes ''OK'')]"
    using reply_trigger [of r w] by blast
  then show ?thesis by simp
qed

text \<open>
  C9. A POST request whose path component is not \<^verbatim>\<open>/trigger\<close> gets the 404 reply, and
  none of its headers is named \<^verbatim>\<open>Access-Control-Allow-Origin\<close>,
  \<^verbatim>\<open>Access-Control-Allow-Methods\<close> or \<^verbatim>\<open>Access-Control-Allow-Headers\<close>. A reply that does
  carry one of them has status 200 and answers an OPTIONS request or a POST whose path
  component is \<^verbatim>\<open>/trigger\<close>.
\<close>

theorem http_404_without_cors:
  "(let reply = fst (process_request r w)
    in (command r = ''POST'' \<and> urlparse w (path r) = Inr p \<and> p \<noteq> ''/trigger'' \<longrightarrow>
          status_of reply = Some 404 \<and> cors_free reply)
     \<and> (\<not> cors_free reply \<longrightarrow>
          status_of reply = Some 200
          \<and> (command r = ''OPTIONS''
             \<or> (command r = ''POST'' \<and> urlparse w (path r) = Inr ''/trigger''))))"
proof -
  have "command r = ''POST'' \<and> urlparse w (path r) = Inr p \<and> p \<noteq> ''/trigger'' \<longrightarrow>
      status_of (fst (process_request r w)) = Some 404 \<and> cors_free (fst (process_request r w))"
    by (simp add: reply_not_found cors_free_def cors_names_def)
  moreover have "\<not> cors_free (fst (process_request r w)) \<longrightarrow>
      status_of (fst (process_request r w)) = Some 200
      \<and> (command r = ''OPTIONS''
         \<or> (command r = ''POST'' \<and> urlparse w (path r) = Inr ''/trigger''))"
    using cors_free_cases [of r w] status_with_cors [of r w] by blast
  ultimately show ?thesis by (simp add: Let_def)
qed

theorem http_404_without_cors_witness:
  "urlparse \<lparr>clock = 0, jitter = [], trace = [], bracketed_hosts = {}\<rparr> ''/open'' = Inr ''/open''
   \<and> headers_of (fst (process_request
      \<lparr>command = ''POST'', path = ''/open'', client_address = (''127.0.0.1'', 50000),
       rfile = []\<rparr>
      \<lparr>clock = 0, jitter = [], trace = [], bracketed_hosts = {}\<rparr>)) =
     [(''Server'', Version_string), (''Date'', Date_time 0), (''Connection'', Text ''close''),
      (''Content-Type'', Text ''text/html;charset=utf-8''),
      (''Content-Length'',
         Length_of (Error_page 404 (Phrase ''Endpoint not found'') ''Nothing matches the given URI''))]
   \<and> \<not> cors_free (fst (process_request
      \<lparr>command = ''OPTIONS'', path = ''/open'', client_address = (''127.0.0.1'', 50000),
       rfile = []\<rparr>
      \<lparr>clock = 0, jitter = [], trace = [], bracketed_hosts = {}\<rparr>))"
proof -
  let ?w = "\<lparr>clock = 0, jitter = [], trace = [], bracketed_hosts = {}\<rparr>"
  let ?post = "\<lparr>command = ''POST'', path = ''/open'',
     client_address = (''127.0.0.1'', 50000), rfile = []\<rparr>"
  let ?options = "\<lparr>command = ''OPTIONS'', path = ''/open'',
     client_address = (''127.0.0.1'', 50000), rfile = []\<rparr>"
  have u: "urlparse ?w ''/open'' = Inr ''/open''"
    by (simp add: urlparse_def urlsplit_def lstrip_c0_def remove_unsafe_def split_scheme_slash
        before_def uses_params_def)
  have p: "process_request ?post ?w =
     ([Status_line 404 (Phrase ''Endpoint not found''),
       Header ''Server'' Version_string,
       Header ''Date'' (Date_time 0),
       Header ''Connection'' (Text ''close''),
       Header ''Content-Type'' (Text ''text/html;charset=utf-8''),
       Header ''Content-Length''
         (Length_of (Error_page 404 (Phrase ''Endpoint not found'') ''Nothing matches the given URI'')),
       End_headers,
       Body (Error_page 404 (Phrase ''Endpoint not found'') ''Nothing matches the given URI'')], ?w)"
    using reply_not_found [of ?post ?w "''/open''"] u by simp
  have c: "\<not> cors_free (fst (process_request ?options ?w))"
    by (simp add: reply_options cors_free_def cors_names_def)
  show ?thesis
    using u p c http_404_without_cors [of ?post ?w "''/open''"]
      http_404_without_cors [of ?options ?w "[]"]
    by (simp add: Let_def)
qed




section \<open>No state between triggers\<close>

lemma new_events_same: "trace w1 = trace w2 \<Longrightarrow> new_events w1 w' = new_events w2 w'"
  by (simp add: new_events_def)

lemma new_events_self: "new_events w w = []"
  by (simp add: new_events_def)

lemma bracketed_hosts_process_request:
  "bracketed_hosts (snd (process_request r w)) = bracketed_hosts w"
proof (cases "command r = ''POST''")
  case True
  show ?thesis
  proof (cases "urlparse w (path r)")
    case (Inl e)
    then show ?thesis using True by (simp add: reply_value_error)
  next
    case (Inr p)
    then show ?thesis
      using True by (cases "p = ''/trigger''") (simp_all add: reply_not_found world_trigger)
  qed
next
  case False
  then show ?thesis
    by (cases "command r = ''OPTIONS''") (simp_all add: reply_unsupported reply_options)
qed

lemma process_request_same_hosts:
  assumes "bracketed_hosts w1 = bracketed_hosts w2"
  shows "map undated (fst (process_request r w1)) = map undated (fst (process_request r w2))"
    and "untimed (new_events w1 (snd (process_request r w1))) =
         untimed (new_events w2 (snd (process_request r w2)))"
proof -
  have u: "urlparse w1 (path r) = urlparse w2 (path r)"
    by (rule urlparse_cong [OF assms])
  have "map undated (fst (process_request r w1)) = map undated (fst (process_request r w2))
    \<and> untimed (new_events w1 (snd (process_request r w1))) =
       untimed (new_events w2 (snd (process_request r w2)))"
  proof (cases "command r = ''POST''")
    case True
    show ?thesis
    proof (cases "urlparse w2 (path r)")
      case (Inl e)
      then show ?thesis using True u by (simp add: reply_value_error new_events_self)
    next
      case (Inr p)
      show ?thesis
      proof (cases "p = ''/trigger''")
        case False
        then show ?thesis using True u Inr by (simp add: reply_not_found new_events_self)
      next
        case yes: True
        obtain t1 where t1: "fst (process_request r w1) =
          [Status_line 200 (Phrase ''OK''),
           Header ''Server'' Version_string,
           Header ''Date'' (Date_time t1),
           Header ''Access-Control-Allow-Origin'' (Text ''*''),
           Header ''Access-Control-Allow-Methods'' (Text ''POST, OPTIONS''),
           Header ''Access-Control-Allow-Headers'' (Text ''Content-Type''),
           Header ''Content-Type'' (Text ''text/plain''),
           End_headers,
           Body (Bytes ''OK'')]"
          using reply_trigger [of r w1] True u Inr yes by auto
        obtain t2 where t2: "fst (process_request r w2) =
          [Status_line 200 (Phrase ''OK''),
           Header ''Server'' Version_string,
           Header ''Date'' (Date_time t2),
           Header ''Access-Control-Allow-Origin'' (Text ''*''),
           Header ''Access-Control-Allow-Methods'' (Text ''POST, OPTIONS''),
           Header ''Access-Control-Allow-Headers'' (Text ''Content-Type''),
           Header ''Content-Type'' (Text ''text/plain''),
           End_headers,
           Body (Bytes ''OK'')]"
          using reply_trigger [of r w2] True Inr yes by auto
        show ?thesis
          using t1 t2 True u Inr yes by (simp add: world_trigger)
      qed
    qed
  next
    case False
    then show ?thesis
      by (cases "command r = ''OPTIONS''")
        (simp_all add: reply_unsupported reply_options new_events_self)
  qed
  then show "map undated (fst (process_request r w1)) = map undated (fst (process_request r w2))"
    and "untimed (new_events w1 (snd (process_request r w1))) =
         untimed (new_events w2 (snd (process_request r w2)))"
    by simp_all
qed

lemma serve_forever_snoc:
  "serve_forever (rs @ [r]) w =
     (fst (serve_forever rs w) @ [fst (process_request r (elapse 0 (snd (serve_forever rs w))))],
      snd (process_request r (elapse 0 (snd (serve_forever rs w)))))"
  by (induction rs arbitrary: w) (simp_all add: split_def Let_def)

lemma bracketed_hosts_elapse: "bracketed_hosts (elapse d w) = bracketed_hosts w"
  by (simp add: elapse_def)

lemma trace_elapse: "trace (elapse d w) = trace w"
  by (simp add: elapse_def)

lemma bracketed_hosts_serve_forever:
  "bracketed_hosts (snd (serve_forever rs w)) = bracketed_hosts w"
  by (induction rs arbitrary: w)
    (simp_all add: split_def Let_def bracketed_hosts_process_request bracketed_hosts_elapse)

lemma untimed_receive_loop_snoc:
  "untimed (new_events (receive_loop ds w) (receive_loop (ds @ [d]) w)) =
     untimed (new_events w' (receive_loop [d] w'))"
  by (simp add: receive_loop_append untimed_loop_body)

text \<open>
  C7. Neither responder keeps state from one trigger to the next. UDP: after any
  datagrams \<open>ds\<close>, the events the next datagram \<open>d\<close> adds to the trace are, time stamps
  aside, the events it adds when it is the first datagram of a run in any world \<open>w'\<close>.
  HTTP: after any requests \<open>rs\<close>, the reply to the next request \<open>r\<close> and the events it
  adds are, the clock readings aside (the \<^verbatim>\<open>Date\<close> header, the times in the log lines),
  those it gets as the first request of a server started at any clock reading \<open>c\<close>, with
  any delays \<open>js\<close> and any trace \<open>tr\<close>.
\<close>

theorem no_state_between_triggers:
  "untimed (new_events (receive_loop ds w) (receive_loop (ds @ [d]) w)) =
     untimed (new_events w' (receive_loop [d] w'))
   \<and> map (map undated) (fst (serve_forever (rs @ [r]) w)) =
       map (map undated) (fst (serve_forever rs w)) @
       map (map undated) (fst (serve_forever [r] (w\<lparr>clock := c, jitter := js, trace := tr\<rparr>)))
   \<and> untimed (new_events (snd (serve_forever rs w)) (snd (serve_forever (rs @ [r]) w))) =
       untimed (new_events (w\<lparr>clock := c, jitter := js, trace := tr\<rparr>)
         (snd (serve_forever [r] (w\<lparr>clock := c, jitter := js, trace := tr\<rparr>))))"
proof -
  let ?w1 = "elapse 0 (snd (serve_forever rs w))"
  let ?w' = "w\<lparr>clock := c, jitter := js, trace := tr\<rparr>"
  let ?w2 = "elapse 0 ?w'"
  have hosts: "bracketed_hosts ?w1 = bracketed_hosts ?w2"
    by (simp add: bracketed_hosts_elapse bracketed_hosts_serve_forever)
  have "map undated (fst (process_request r ?w1)) = map undated (fst (process_request r ?w2))"
    by (rule process_request_same_hosts(1) [OF hosts])
  then have replies: "map (map undated) (fst (serve_forever (rs @ [r]) w)) =
       map (map undated) (fst (serve_forever rs w)) @
       map (map undated) (fst (serve_forever [r] ?w'))"
    by (simp add: serve_forever_snoc split_def Let_def)
  have "untimed (new_events ?w1 (snd (process_request r ?w1))) =
      untimed (new_events ?w2 (snd (process_request r ?w2)))"
    by (rule process_request_same_hosts(2) [OF hosts])
  moreover have "new_events ?w1 (snd (process_request r ?w1)) =
      new_events (snd (serve_forever rs w)) (snd (process_request r ?w1))"
    by (rule new_events_same) (simp add: trace_elapse)
  moreover have "new_events ?w2 (snd (process_request r ?w2)) =
      new_events ?w' (snd (process_request r ?w2))"
    by (rule new_events_same) (simp add: trace_elapse)
  ultimately have events:
    "untimed (new_events (snd (serve_forever rs w)) (snd (serve_forever (rs @ [r]) w))) =
       untimed (new_events ?w' (snd (serve_forever [r] ?w')))"
    by (simp add: serve_forever_snoc split_def Let_def)
  show ?thesis
    using untimed_receive_loop_snoc [of ds w d w'] replies events by blast
qed

theorem no_state_between_triggers_witness:
  "untimed (new_events
      (receive_loop [\<lparr>arrival = 10, payload = [0x01], sender = (''10.0.0.7'', 4242)\<rparr>]
         \<lparr>clock = 0, jitter = [1, 2, 3], trace = [], bracketed_hosts = {}\<rparr>)
      (receive_loop
         ([\<lparr>arrival = 10, payload = [0x01], sender = (''10.0.0.7'', 4242)\<rparr>] @
          [\<lparr>arrival = 200, payload = [0x02], sender = (''10.0.0.9'', 5353)\<rparr>])
         \<lparr>clock = 0, jitter = [1, 2, 3], trace = [], bracketed_hosts = {}\<rparr>)) =
     [RecvFrom [0x02] (''10.0.0.9'', 5353),
      Print (Trigger_from 0 (''10.0.0.9'', 5353) ''02''),
      SendTo [0x01] (''10.0.0.9'', 5353),
      Print (Sent_activated 0 (''10.0.0.9'', 5353)),
      Sleep 500,
      SendTo [0x00] (''10.0.0.9'', 5353),
      Print (Sent_released 0 (''10.0.0.9'', 5353)),
      Print (Plain (replicate 45 CHR ''-''))]
   \<and> map (map undated) (fst (serve_forever
      ([\<lparr>command = ''GET'', path = ''/'', client_address = (''127.0.0.1'', 50000), rfile = []\<rparr>] @
       [\<lparr>command = ''POST'', path = ''/trigger'', client_address = (''127.0.0.1'', 50001),
         rfile = []\<rparr>])
      \<lparr>clock = 1000, jitter = [1, 2, 3, 4], trace = [], bracketed_hosts = {}\<rparr>)) =
     [[Status_line 501 (Unsupported_method ''GET''),
       Header ''Server'' Version_string,
       Header ''Date'' (Date_time 0),
       Header ''Connection'' (Text ''close''),
       Header ''Content-Type'' (Text ''text/html;charset=utf-8''),
       Header ''Content-Length''
         (Length_of (Error_page 501 (Unsupported_method ''GET'')
            ''Server does not support this operation'')),
       End_headers,
       Body (Error_page 501 (Unsupported_method ''GET'') ''Server does not support this operation'')],
      [Status_line 200 (Phrase ''OK''),
       Header ''Server'' Version_string,
       Header ''Date'' (Date_time 0),
       Header ''Access-Control-Allow-Origin'' (Text ''*''),
       Header ''Access-Control-Allow-Methods'' (Text ''POST, OPTIONS''),
       Header ''Access-Control-Allow-Headers'' (Text ''Content-Type''),
       Header ''Content-Type'' (Text ''text/plain''),
       End_headers,
       Body (Bytes ''OK'')]]"
proof -
  let ?w = "\<lparr>clock = 0, jitter = [1, 2, 3], trace = [], bracketed_hosts = {}\<rparr>"
  let ?d1 = "\<lparr>arrival = 10, payload = [0x01], sender = (''10.0.0.7'', 4242)\<rparr>"
  let ?d2 = "\<lparr>arrival = 200, payload = [0x02], sender = (''10.0.0.9'', 5353)\<rparr>"
  let ?v = "\<lparr>clock = 1000, jitter = [1, 2, 3, 4], trace = [], bracketed_hosts = {}\<rparr>"
  let ?get = "\<lparr>command = ''GET'', path = ''/'', client_address = (''127.0.0.1'', 50000),
     rfile = []\<rparr>"
  let ?post = "\<lparr>command = ''POST'', path = ''/trigger'', client_address = (''127.0.0.1'', 50001),
     rfile = []\<rparr>"
  have first_udp: "untimed (new_events ?w (receive_loop [?d2] ?w)) =
     [RecvFrom [0x02] (''10.0.0.9'', 5353),
      Print (Trigger_from 0 (''10.0.0.9'', 5353) ''02''),
      SendTo [0x01] (''10.0.0.9'', 5353),
      Print (Sent_activated 0 (''10.0.0.9'', 5353)),
      Sleep 500,
      SendTo [0x00] (''10.0.0.9'', 5353),
      Print (Sent_released 0 (''10.0.0.9'', 5353)),
      Print (Plain (replicate 45 CHR ''-''))]"
    by (simp add: untimed_loop_body hex_def hexdigit_def Let_def)
  have get: "map undated (fst (process_request ?get (elapse 0 ?v))) =
      [Status_line 501 (Unsupported_method ''GET''),
       Header ''Server'' Version_string,
       Header ''Date'' (Date_time 0),
       Header ''Connection'' (Text ''close''),
       Header ''Content-Type'' (Text ''text/html;charset=utf-8''),
       Header ''Content-Length''
         (Length_of (Error_page 501 (Unsupported_method ''GET'')
            ''Server does not support this operation'')),
       End_headers,
       Body (Error_page 501 (Unsupported_method ''GET'') ''Server does not support this operation'')]"
    by (simp add: reply_unsupported)
  have first_http: "map (map undated) (fst (serve_forever [?post]
        (?v\<lparr>clock := 0, jitter := [], trace := []\<rparr>))) =
     [[Status_line 200 (Phrase ''OK''),
       Header ''Server'' Version_string,
       Header ''Date'' (Date_time 0),
       Header ''Access-Control-Allow-Origin'' (Text ''*''),
       Header ''Access-Control-Allow-Methods'' (Text ''POST, OPTIONS''),
       Header ''Access-Control-Allow-Headers'' (Text ''Content-Type''),
       Header ''Content-Type'' (Text ''text/plain''),
       End_headers,
       Body (Bytes ''OK'')]]"
    using urlparse_trigger_plain [of "elapse 0 (?v\<lparr>clock := 0, jitter := [], trace := []\<rparr>)"]
    by (simp add: process_request_def handle_one_request_def do_POST_def new_handler_fields
        handle_trigger_1x)
  have history: "map (map undated) (fst (serve_forever [?get] ?v)) =
      [map undated (fst (process_request ?get (elapse 0 ?v)))]"
    by (simp add: split_def Let_def)
  show ?thesis
    using no_state_between_triggers
      [where ds = "[?d1]" and d = ?d2 and w = ?w and w' = ?w and rs = "[?get]" and r = ?post
         and c = 0 and js = "[]" and tr = "[]"]
      no_state_between_triggers
      [where ds = "[?d1]" and d = ?d2 and w = ?v and w' = ?w and rs = "[?get]" and r = ?post
         and c = 0 and js = "[]" and tr = "[]"]
      first_udp get first_http history
    by simp
qed

end
